theory Spec2Isabelle
  imports Main "HOL-Library.Sublist" "HOL-Library.AList"
begin

section \<open>The workflow "Visual Regression Test"\<close>

text \<open>
  The workflow file is data for the GitHub Actions runner. Its keys become records, the
  expressions it writes (\<^verbatim>\<open>github.event.deployment_status.state == 'success'\<close>,
  \<^verbatim>\<open>${{ secrets.PERCY_TOKEN }}\<close>) become functions of the expression context, and the
  runner's handling of a job and of its steps becomes the functions \<open>run_steps\<close>,
  \<open>run_job\<close> and \<open>run_workflow\<close>. A key the file does not write takes the value the
  runner gives it by default.
\<close>

subsection \<open>Events and the expression context\<close>

text \<open>
  The payload of a \<^verbatim>\<open>deployment_status\<close> event, with the two fields the workflow reads.
  Any other event has no \<^verbatim>\<open>deployment_status\<close> object.
\<close>

record deployment_status =
  state :: string
  target_url :: string

datatype event = Deployment_status deployment_status | Other_event string

fun event_name :: "event \<Rightarrow> string" where
  "event_name (Deployment_status d) = ''deployment_status''"
| "event_name (Other_event n) = n"

record gh_context =
  github_event :: event
  secrets :: "string \<rightharpoonup> string"

text \<open>
  The comparison \<^verbatim>\<open>==\<close> of the expression language on two strings ignores case. The
  model folds the letters A to Z, which are the capital letters that a state name
  (see \<open>state_name\<close> below) can be mistaken for.
\<close>

definition gh_lower :: "char \<Rightarrow> char" where
  "gh_lower ch =
     (let n = (of_char ch :: nat) in if 65 \<le> n \<and> n \<le> 90 then char_of (n + 32) else ch)"

definition gh_eq :: "string \<Rightarrow> string \<Rightarrow> bool" where
  "gh_eq a b = (map gh_lower a = map gh_lower b)"

text \<open>
  \<^verbatim>\<open>${{ e }}\<close> in a string position: a missing value (null) is the empty string.
\<close>

definition gh_string :: "string option \<Rightarrow> string" where
  "gh_string v = (case v of None \<Rightarrow> [] | Some s \<Rightarrow> s)"

text \<open>\<^verbatim>\<open>github.event.deployment_status.state\<close> and \<^verbatim>\<open>.target_url\<close>: null on another event.\<close>

fun event_state :: "gh_context \<Rightarrow> string option" where
  "event_state c =
     (case github_event c of Deployment_status d \<Rightarrow> Some (state d) | Other_event n \<Rightarrow> None)"

fun event_target_url :: "gh_context \<Rightarrow> string option" where
  "event_target_url c =
     (case github_event c of Deployment_status d \<Rightarrow> Some (target_url d) | Other_event n \<Rightarrow> None)"

text \<open>
  The state names of deployment statuses are written with small letters and the
  underscore (\<^verbatim>\<open>success\<close>, \<^verbatim>\<open>failure\<close>, \<^verbatim>\<open>in_progress\<close>, ...).
\<close>

definition state_name :: "string \<Rightarrow> bool" where
  "state_name s = list_all (\<lambda>ch. ch \<in> set ''abcdefghijklmnopqrstuvwxyz_'') s"

subsection \<open>The workflow file\<close>

datatype action = Uses string "(string \<times> string) list" | Run string

record step =
  step_name :: string
  step_action :: action
  step_env :: "(string \<times> (gh_context \<Rightarrow> string)) list"
  step_if :: "(bool \<Rightarrow> gh_context \<Rightarrow> bool) option"
  continue_on_error :: bool

record job =
  job_id :: string
  job_if :: "(gh_context \<Rightarrow> bool) option"
  runs_on :: string
  job_env :: "(string \<times> (gh_context \<Rightarrow> string)) list"
  steps :: "step list"

record workflow =
  wf_name :: string
  wf_on :: "string list"
  wf_env :: "(string \<times> (gh_context \<Rightarrow> string)) list"
  jobs :: "job list"

text \<open>\<^verbatim>\<open>if: github.event.deployment_status.state == 'success'\<close>; null is not equal to a word.\<close>

definition build_if :: "gh_context \<Rightarrow> bool" where
  "build_if c = (case event_state c of None \<Rightarrow> False | Some s \<Rightarrow> gh_eq s ''success'')"

definition checkout_step :: step where
  "checkout_step =
     \<lparr>step_name = ''Checkout'',
      step_action = Uses ''actions/checkout@v1.0.0'' [],
      step_env = [], step_if = None, continue_on_error = False\<rparr>"

definition install_step :: step where
  "install_step =
     \<lparr>step_name = ''Install'',
      step_action = Run ''npm install'',
      step_env = [], step_if = None, continue_on_error = False\<rparr>"

definition percy_step :: step where
  "percy_step =
     \<lparr>step_name = ''Percy Test'',
      step_action = Uses ''percy/exec-action@v0.3.0''
        [(''command'', ''node test/snapshots.js''), (''verbose'', ''true'')],
      step_env =
        [(''PERCY_TOKEN'', \<lambda>c. gh_string (secrets c ''PERCY_TOKEN'')),
         (''DEPLOY_URL'', \<lambda>c. gh_string (event_target_url c))],
      step_if = None, continue_on_error = False\<rparr>"

definition build :: job where
  "build =
     \<lparr>job_id = ''build'',
      job_if = Some build_if,
      runs_on = ''ubuntu-latest'',
      job_env = [],
      steps = [checkout_step, install_step, percy_step]\<rparr>"

definition visual_regression_test :: workflow where
  "visual_regression_test =
     \<lparr>wf_name = ''Visual Regression Test'',
      wf_on = [''deployment_status''],
      wf_env = [],
      jobs = [build]\<rparr>"

subsection \<open>The runner\<close>

datatype conclusion = Success | Failure | Skipped

text \<open>
  A step with no \<^verbatim>\<open>if\<close> runs under the default condition \<^verbatim>\<open>success()\<close>: only while no
  earlier step of the job has failed. A job with no \<^verbatim>\<open>if\<close> runs.
\<close>

definition step_enabled :: "step \<Rightarrow> bool \<Rightarrow> gh_context \<Rightarrow> bool" where
  "step_enabled s failed c =
     (case step_if s of None \<Rightarrow> \<not> failed | Some cond \<Rightarrow> cond failed c)"

definition job_enabled :: "job \<Rightarrow> gh_context \<Rightarrow> bool" where
  "job_enabled j c = (case job_if j of None \<Rightarrow> True | Some cond \<Rightarrow> cond c)"

text \<open>
  The steps run one after the other. \<open>ex\<close> gives the exit status of the process each step
  starts, by the step's name (0 is success). \<open>failed\<close> says that an earlier step has
  failed without \<^verbatim>\<open>continue-on-error\<close>. Every step gets a conclusion, in order.
\<close>

fun run_steps ::
  "(string \<Rightarrow> nat) \<Rightarrow> gh_context \<Rightarrow> bool \<Rightarrow> step list \<Rightarrow> (step \<times> conclusion) list" where
  "run_steps ex c failed [] = []"
| "run_steps ex c failed (s # ss) =
     (if step_enabled s failed c then
        (if ex (step_name s) = 0 then (s, Success) # run_steps ex c failed ss
         else if continue_on_error s then (s, Success) # run_steps ex c failed ss
         else (s, Failure) # run_steps ex c True ss)
      else (s, Skipped) # run_steps ex c failed ss)"

definition executed :: "(step \<times> conclusion) list \<Rightarrow> step list" where
  "executed rs = map fst (filter (\<lambda>r. snd r \<noteq> Skipped) rs)"

definition steps_conclusion :: "(step \<times> conclusion) list \<Rightarrow> conclusion" where
  "steps_conclusion rs = (if Failure \<in> set (map snd rs) then Failure else Success)"

definition run_job :: "(string \<Rightarrow> nat) \<Rightarrow> gh_context \<Rightarrow> job \<Rightarrow> conclusion \<times> (step \<times> conclusion) list" where
  "run_job ex c j =
     (if job_enabled j c
      then (let rs = run_steps ex c False (steps j) in (steps_conclusion rs, rs))
      else (Skipped, []))"

text \<open>
  An event whose name is not under \<^verbatim>\<open>on\<close> starts no run (\<open>None\<close>). A run fails when one
  of its jobs fails.
\<close>

definition triggered :: "workflow \<Rightarrow> gh_context \<Rightarrow> bool" where
  "triggered w c = (event_name (github_event c) \<in> set (wf_on w))"

definition run_workflow ::
  "(string \<Rightarrow> nat) \<Rightarrow> gh_context \<Rightarrow> workflow \<Rightarrow> (conclusion \<times> (step \<times> conclusion) list) list option" where
  "run_workflow ex c w = (if triggered w c then Some (map (run_job ex c) (jobs w)) else None)"

definition run_conclusion :: "(conclusion \<times> (step \<times> conclusion) list) list \<Rightarrow> conclusion" where
  "run_conclusion js = (if Failure \<in> set (map fst js) then Failure else Success)"

text \<open>
  The steps a run executes, in order: none when the event starts no run or the job is
  skipped. The build job runs when this list is not empty.
\<close>

definition steps_run :: "(string \<Rightarrow> nat) \<Rightarrow> gh_context \<Rightarrow> workflow \<Rightarrow> step list" where
  "steps_run ex c w =
     (case run_workflow ex c w of None \<Rightarrow> [] | Some js \<Rightarrow> concat (map (\<lambda>j. executed (snd j)) js))"

definition step_conclusions :: "(string \<Rightarrow> nat) \<Rightarrow> gh_context \<Rightarrow> workflow \<Rightarrow> conclusion list" where
  "step_conclusions ex c w =
     (case run_workflow ex c w of None \<Rightarrow> [] | Some js \<Rightarrow> concat (map (\<lambda>j. map snd (snd j)) js))"

definition pipeline :: "(string \<Rightarrow> nat) \<Rightarrow> gh_context \<Rightarrow> workflow \<Rightarrow> conclusion option" where
  "pipeline ex c w = map_option run_conclusion (run_workflow ex c w)"

text \<open>The environment the workflow declares: at workflow, job and step level.\<close>

definition declared_env :: "workflow \<Rightarrow> job \<Rightarrow> step \<Rightarrow> gh_context \<Rightarrow> (string \<times> string) list" where
  "declared_env w j s c = map (\<lambda>(k, e). (k, e c)) (wf_env w @ job_env j @ step_env s)"

definition job_declared_env :: "workflow \<Rightarrow> job \<Rightarrow> gh_context \<Rightarrow> (string \<times> string) list" where
  "job_declared_env w j c =
     map (\<lambda>(k, e). (k, e c)) (wf_env w @ job_env j @ concat (map step_env (steps j)))"

text \<open>Concrete inputs: a successful and a failed deployment, and exit statuses.\<close>

definition deployed :: gh_context where
  "deployed =
     \<lparr>github_event = Deployment_status \<lparr>state = ''success'', target_url = ''https://webcloud.example''\<rparr>,
      secrets = [''PERCY_TOKEN'' \<mapsto> ''t0ken'']\<rparr>"

definition deploy_failed :: gh_context where
  "deploy_failed =
     \<lparr>github_event = Deployment_status \<lparr>state = ''failure'', target_url = ''https://webcloud.example''\<rparr>,
      secrets = [''PERCY_TOKEN'' \<mapsto> ''t0ken'']\<rparr>"

definition all_pass :: "string \<Rightarrow> nat" where
  "all_pass n = 0"

definition checkout_fails :: "string \<Rightarrow> nat" where
  "checkout_fails n = (if n = ''Checkout'' then 1 else 0)"

definition install_fails :: "string \<Rightarrow> nat" where
  "install_fails n = (if n = ''Install'' then 1 else 0)"

section \<open>The Card component\<close>

text \<open>
  \<^verbatim>\<open>card.js\<close> calls \<^verbatim>\<open>createComponent\<close> of react-fela with a style object and the
  element type \<^verbatim>\<open>"div"\<close>. The component it gets is modelled as react-fela documents
  it. The type defaults to \<^verbatim>\<open>div\<close> and the props passed through to the element to
  none. A render takes apart the props

  \<^verbatim>\<open>{ children, _felaRule, extend, innerRef, id, style, as, className, passThrough, ...otherProps }\<close>

  and combines the component's rule with \<^verbatim>\<open>_felaRule\<close> (the rule an enclosing fela
  component hands down) and with \<^verbatim>\<open>extend\<close>; each of them is a style object or a
  function of \<^verbatim>\<open>{ ...otherProps, theme, as, id }\<close>, the theme being that of the context
  (a flat object, as the styles are).
  The element is of the type (or of the \<^verbatim>\<open>as\<close> prop), its class is the \<^verbatim>\<open>className\<close> prop
  followed by the class the renderer makes for the combined style, and \<^verbatim>\<open>style\<close>, \<^verbatim>\<open>id\<close>,
  \<^verbatim>\<open>innerRef\<close> and the children go to the element, as do the other props that
  \<^verbatim>\<open>passThroughProps\<close> or the \<^verbatim>\<open>passThrough\<close> prop name.

  Styles are flat: property names with string values. The names of the generated
  classes are left out: an element carries in \<open>el_css\<close> the declarations that a renderer
  without plugins renders for its class.
\<close>

type_synonym style = "(string \<times> string) list"

type_synonym fela_theme = "(string \<times> string) list"

record rule_props =
  rp_props :: "(string \<times> string) list"
  rp_theme :: fela_theme
  rp_as :: "string option"
  rp_id :: "string option"

datatype rule = Style_object style | Rule_function "rule_props \<Rightarrow> style"

datatype pass_through = Names "string list" | Names_of "(string \<times> string) list \<Rightarrow> string list"

record 'n props =
  children :: "'n list"
  felaRule :: "rule option"
  extend_prop :: "rule option"
  innerRef :: "string option"
  id_prop :: "string option"
  style_prop :: "style option"
  as_prop :: "string option"
  className :: "string option"
  passThrough :: pass_through
  otherProps :: "(string \<times> string) list"

record 'n element =
  el_type :: string
  el_className :: string
  el_css :: style
  el_style :: "style option"
  el_id :: "string option"
  el_ref :: "string option"
  el_attrs :: "(string \<times> string) list"
  el_children :: "'n list"

record component =
  comp_rule :: rule
  comp_type :: string
  comp_passThroughProps :: pass_through

definition createComponent :: "rule \<Rightarrow> string option \<Rightarrow> pass_through option \<Rightarrow> component" where
  "createComponent r type passThroughProps =
     \<lparr>comp_rule = r,
      comp_type = (case type of None \<Rightarrow> ''div'' | Some t \<Rightarrow> t),
      comp_passThroughProps = (case passThroughProps of None \<Rightarrow> Names [] | Some ps \<Rightarrow> ps)\<rparr>"

definition resolveRule :: "rule \<Rightarrow> rule_props \<Rightarrow> style" where
  "resolveRule r rp = (case r of Style_object st \<Rightarrow> st | Rule_function f \<Rightarrow> f rp)"

text \<open>A later declaration of a property replaces the value in place; a new one is added at the end.\<close>

definition assignStyle :: "style \<Rightarrow> style \<Rightarrow> style" where
  "assignStyle base st = fold (\<lambda>(k, v) acc. AList.update k v acc) st base"

definition combineRules :: "rule list \<Rightarrow> rule_props \<Rightarrow> style" where
  "combineRules rs rp = fold (\<lambda>r acc. assignStyle acc (resolveRule r rp)) rs []"

text \<open>
  The renderer makes no class for a declaration whose value is undefined: a string in
  which \<^verbatim>\<open>undefined\<close> or \<^verbatim>\<open>null\<close> occurs, unless \<^verbatim>\<open>url\<close> occurs in it too.
\<close>

fun occurs_in :: "string \<Rightarrow> string \<Rightarrow> bool" where
  "occurs_in sub [] = (sub = [])"
| "occurs_in sub (ch # cs) = (prefix sub (ch # cs) \<or> occurs_in sub cs)"

definition isUndefinedValue :: "string \<Rightarrow> bool" where
  "isUndefinedValue v =
     ((occurs_in ''undefined'' v \<or> occurs_in ''null'' v) \<and> \<not> occurs_in ''url'' v)"

definition renderRule :: "rule list \<Rightarrow> rule_props \<Rightarrow> style" where
  "renderRule rs rp = filter (\<lambda>(k, v). \<not> isUndefinedValue v) (combineRules rs rp)"

text \<open>
  The props passed through: the names are walked in their order, and a name that is a
  prop is assigned to the output.
\<close>

definition resolvePassThrough :: "pass_through \<Rightarrow> (string \<times> string) list \<Rightarrow> string list" where
  "resolvePassThrough pt ps = (case pt of Names ns \<Rightarrow> ns | Names_of f \<Rightarrow> f ps)"

definition extractPassThroughProps :: "string list \<Rightarrow> (string \<times> string) list \<Rightarrow> (string \<times> string) list" where
  "extractPassThroughProps names ps =
     fold (\<lambda>n out. case map_of ps n of None \<Rightarrow> out | Some v \<Rightarrow> AList.update n v out) names []"

text \<open>\<^verbatim>\<open>{ ...otherProps, theme, as, id }\<close>: the theme of the context hides a prop of that name.\<close>

definition ruleProps :: "fela_theme \<Rightarrow> 'n props \<Rightarrow> rule_props" where
  "ruleProps th p =
     \<lparr>rp_props = filter (\<lambda>(k, v). k \<noteq> ''theme'') (otherProps p),
      rp_theme = th, rp_as = as_prop p, rp_id = id_prop p\<rparr>"

text \<open>The rules after the component's own: \<^verbatim>\<open>_felaRule\<close>, then \<^verbatim>\<open>extend\<close>.\<close>

definition extensions :: "'n props \<Rightarrow> rule list" where
  "extensions p =
     (case felaRule p of None \<Rightarrow> [] | Some r \<Rightarrow> [r]) @
     (case extend_prop p of None \<Rightarrow> [] | Some r \<Rightarrow> [r])"

definition extension_styles :: "fela_theme \<Rightarrow> 'n props \<Rightarrow> style list" where
  "extension_styles th p = map (\<lambda>r. resolveRule r (ruleProps th p)) (extensions p)"

definition passed_through :: "component \<Rightarrow> 'n props \<Rightarrow> (string \<times> string) list" where
  "passed_through fc p =
     extractPassThroughProps
       (resolvePassThrough (comp_passThroughProps fc) (otherProps p) @
        resolvePassThrough (passThrough p) (otherProps p))
       (otherProps p)"

text \<open>
  \<^verbatim>\<open>as || type\<close>, \<^verbatim>\<open>className ? className + " " : ""\<close>, \<^verbatim>\<open>if (id)\<close>: an absent prop and the
  empty string are both false in JavaScript.
\<close>

definition render :: "component \<Rightarrow> fela_theme \<Rightarrow> 'n props \<Rightarrow> 'n element" where
  "render fc th p =
     \<lparr>el_type =
        (case as_prop p of None \<Rightarrow> comp_type fc
         | Some t \<Rightarrow> if t = [] then comp_type fc else t),
      el_className =
        (case className p of None \<Rightarrow> []
         | Some cls \<Rightarrow> if cls = [] then [] else cls @ '' ''),
      el_css = renderRule (comp_rule fc # extensions p) (ruleProps th p),
      el_style = style_prop p,
      el_id =
        (case id_prop p of None \<Rightarrow> None
         | Some i \<Rightarrow> if i = [] then None else Some i),
      el_ref = innerRef p,
      el_attrs = passed_through fc p,
      el_children = children p\<rparr>"

definition Card :: component where
  "Card =
     createComponent
       (Style_object
          [(''padding'', ''32px 16px''),
           (''flexDirection'', ''column''),
           (''display'', ''flex''),
           (''background'', ''var(--color-bg-alt)''),
           (''boxShadow'', ''var(--shadow)'')])
       (Some ''div'') None"

text \<open>\<^verbatim>\<open><Card>...</Card>\<close>: the children and no other prop.\<close>

definition only_children :: "'n list \<Rightarrow> 'n props" where
  "only_children ch =
     \<lparr>children = ch, felaRule = None, extend_prop = None, innerRef = None, id_prop = None,
      style_prop = None, as_prop = None, className = None, passThrough = Names [],
      otherProps = []\<rparr>"

text \<open>
  Concrete props: \<^verbatim>\<open><Card>hello</Card>\<close>, and the same with one more prop; the last
  has an \<^verbatim>\<open>extend\<close> function that reads the prop \<^verbatim>\<open>color\<close>. The theme of the context is the empty object.
\<close>

definition card_hello :: "string props" where
  "card_hello = only_children [''hello'']"

definition card_wide :: "string props" where
  "card_wide = card_hello\<lparr>className := Some ''wide''\<rparr>"

definition card_flat :: "string props" where
  "card_flat = card_hello\<lparr>extend_prop := Some (Style_object [(''padding'', ''0''), (''color'', ''red'')])\<rparr>"

definition card_titled :: "string props" where
  "card_titled = card_hello\<lparr>otherProps := [(''title'', ''Hi'')]\<rparr>"

definition color_of_props :: rule where
  "color_of_props =
     Rule_function
       (\<lambda>rp. case map_of (rp_props rp) ''color'' of None \<Rightarrow> [] | Some v \<Rightarrow> [(''color'', v)])"

definition card_colored :: "string \<Rightarrow> string props" where
  "card_colored v =
     card_hello\<lparr>extend_prop := Some color_of_props, otherProps := [(''color'', v)]\<rparr>"

section \<open>The snippets of the article\<close>

text \<open>
  The article quotes JavaScript for the head of a page. Its globals are the state of
  the page: the custom properties on the style of the root element (\<^verbatim>\<open>root\<close>),
  \<^verbatim>\<open>window.localStorage\<close>, which the browser keeps from one page session to the next,
  the state of the application, and the callback \<^verbatim>\<open>window.__onSetTheme\<close>. The callback
  is any function the application stores there: called with the theme, it may change
  the page, throw, and store another callback in its place.
\<close>

type_synonym theme = "(string \<times> string) list"

definition themes :: "(string \<times> theme) list" where
  "themes =
     [(''light'', [(''color-fg'', ''#000''), (''color-bg'', ''#fff'')]),
      (''dark'', [(''color-fg'', ''#000''), (''color-bg'', ''#fff'')])]"

record 'a page =
  root :: "string \<rightharpoonup> string"
  localStorage :: "string \<rightharpoonup> string"
  storage_full :: bool
  darkMatcher_matches :: bool
  app :: 'a

datatype js_error = TypeError | QuotaExceededError | ReferenceError

codatatype 'a callback =
  Callback (call: "theme \<Rightarrow> 'a page \<Rightarrow> js_error option \<times> 'a page \<times> 'a callback")

record 'a window =
  page :: "'a page"
  onSetTheme :: "'a callback"

text \<open>\<^verbatim>\<open>function() {}\<close>, and a callback that counts its calls in the state of the application.\<close>

primcorec empty_function :: "'a callback" where
  "empty_function = Callback (\<lambda>t p. (None, p, empty_function))"



text \<open>
  \<^verbatim>\<open>themes[themeName]\<close>: a theme, or a property every object inherits (none of them has
  keys of its own), or undefined.
\<close>

datatype property = Own theme | Inherited | Undefined

definition object_prototype :: "string list" where
  "object_prototype =
     [''constructor'', ''hasOwnProperty'', ''isPrototypeOf'', ''propertyIsEnumerable'',
      ''toLocaleString'', ''toString'', ''valueOf'', ''__proto__'',
      ''__defineGetter__'', ''__defineSetter__'', ''__lookupGetter__'', ''__lookupSetter__'']"

definition themes_get :: "string \<Rightarrow> property" where
  "themes_get themeName =
     (case map_of themes themeName of
        Some t \<Rightarrow> Own t
      | None \<Rightarrow> if themeName \<in> set object_prototype then Inherited else Undefined)"

definition prefersColorScheme :: "'a page \<Rightarrow> string" where
  "prefersColorScheme p = (if darkMatcher_matches p then ''dark'' else ''light'')"

text \<open>
  \<^verbatim>\<open>root.setProperty(name, value)\<close>: an empty value removes the property.
\<close>

definition setProperty :: "string \<Rightarrow> string \<Rightarrow> 'a page \<Rightarrow> 'a page" where
  "setProperty name v p =
     p\<lparr>root := (if v = [] then (root p)(name := None) else (root p)(name \<mapsto> v))\<rparr>"

text \<open>
  \<^verbatim>\<open>window.__setTheme\<close>: for each key of the theme, set the custom property on the root
  element and call the callback that is stored at that moment with the theme. An
  exception of the callback ends the loop. \<^verbatim>\<open>Object.keys\<close> of undefined throws.
\<close>

fun forEach_key :: "theme \<Rightarrow> (string \<times> string) list \<Rightarrow> 'a window \<Rightarrow> js_error option \<times> 'a window" where
  "forEach_key t [] w = (None, w)"
| "forEach_key t (kv # kvs) w =
     (case call (onSetTheme w) t (setProperty (''--'' @ fst kv) (snd kv) (page w)) of
        (Some e, p, cb) \<Rightarrow> (Some e, \<lparr>page = p, onSetTheme = cb\<rparr>)
      | (None, p, cb) \<Rightarrow> forEach_key t kvs \<lparr>page = p, onSetTheme = cb\<rparr>)"

definition setTheme :: "string \<Rightarrow> 'a window \<Rightarrow> js_error option \<times> 'a window" where
  "setTheme themeName w =
     (case themes_get themeName of
        Undefined \<Rightarrow> (Some TypeError, w)
      | Inherited \<Rightarrow> (None, w)
      | Own t \<Rightarrow> forEach_key t t w)"

text \<open>The first script: store the empty callback, then set the preferred theme.\<close>

definition head_script :: "'a window \<Rightarrow> js_error option \<times> 'a window" where
  "head_script w = setTheme (prefersColorScheme (page w)) (w\<lparr>onSetTheme := empty_function\<rparr>)"

text \<open>
  The updated \<^verbatim>\<open>__setTheme\<close>. The article prints it as a fragment,
  \<^verbatim>\<open>window.__setTheme(themeName) { window.localStorage.setItem("themeName", themeName); ... }\<close>,
  which stands for the first \<^verbatim>\<open>__setTheme\<close> with the \<^verbatim>\<open>setItem\<close> line put first: store the
  name under \<^verbatim>\<open>"themeName"\<close>, then go on as before. \<^verbatim>\<open>setItem\<close> throws when the storage
  takes no more.
\<close>

definition setTheme_persist :: "string \<Rightarrow> 'a window \<Rightarrow> js_error option \<times> 'a window" where
  "setTheme_persist themeName w =
     (if storage_full (page w) then (Some QuotaExceededError, w)
      else setTheme themeName
             (w\<lparr>page := (page w)\<lparr>localStorage := (localStorage (page w))(''themeName'' \<mapsto> themeName)\<rparr>\<rparr>))"

text \<open>
  The updated call at the end of the head script:
  \<^verbatim>\<open>window.__setTheme(savedTheme || prefersColorScheme)\<close>.
\<close>

definition initial_theme :: "'a page \<Rightarrow> string" where
  "initial_theme p =
     (case localStorage p ''themeName'' of
        None \<Rightarrow> prefersColorScheme p
      | Some s \<Rightarrow> if s = [] then prefersColorScheme p else s)"

definition head_script_persist :: "'a window \<Rightarrow> js_error option \<times> 'a window" where
  "head_script_persist w =
     setTheme_persist (initial_theme (page w)) (w\<lparr>onSetTheme := empty_function\<rparr>)"

text \<open>
  The last snippet, as printed: \<^verbatim>\<open>darkmatcher.addListener(...)\<close>. The matcher was
  declared as \<^verbatim>\<open>darkMatcher\<close>; no \<^verbatim>\<open>darkmatcher\<close> is declared, so the statement throws
  before a listener is added.
\<close>

definition add_listener :: "'a window \<Rightarrow> js_error option \<times> 'a window" where
  "add_listener w = (Some ReferenceError, w)"

text \<open>
  What the snippets let a page do: run one of the two head scripts, call one of the two
  \<^verbatim>\<open>__setTheme\<close>, store a callback
  (\<^verbatim>\<open>window.__onSetTheme = (themeName) => setThemeName(themeName)\<close>), add the listener.
\<close>

datatype 'a operation =
    Head_script
  | Head_script_persist
  | SetTheme string
  | SetTheme_persist string
  | Assign_onSetTheme "'a callback"
  | Add_listener

fun exec :: "'a operation \<Rightarrow> 'a window \<Rightarrow> js_error option \<times> 'a window" where
  "exec Head_script w = head_script w"
| "exec Head_script_persist w = head_script_persist w"
| "exec (SetTheme n) w = setTheme n w"
| "exec (SetTheme_persist n) w = setTheme_persist n w"
| "exec (Assign_onSetTheme cb) w = (None, w\<lparr>onSetTheme := cb\<rparr>)"
| "exec Add_listener w = add_listener w"




section \<open>Properties of the workflow\<close>

lemma gh_lower_small: "ch \<in> set ''abcdefghijklmnopqrstuvwxyz_'' \<Longrightarrow> gh_lower ch = ch"
  by (auto simp: gh_lower_def)

lemma gh_lower_state_name: "state_name s \<Longrightarrow> map gh_lower s = s"
  unfolding state_name_def
  by (induction s) (simp_all add: gh_lower_small del: set_simps)

lemma gh_lower_success: "map gh_lower ''success'' = ''success''"
  by (simp add: gh_lower_def)

lemma gh_eq_success:
  assumes "state_name s"
  shows "gh_eq s ''success'' \<longleftrightarrow> s = ''success''"
proof -
  have "map gh_lower s = s"
    using assms by (rule gh_lower_state_name)
  then show ?thesis
    unfolding gh_eq_def gh_lower_success by (simp only:)
qed

lemma state_name_success: "state_name ''success''"
  by (simp add: state_name_def)

lemma state_name_failure: "state_name ''failure''"
  by (simp add: state_name_def)

lemma build_if_deployment:
  "github_event c = Deployment_status d \<Longrightarrow> build_if c = gh_eq (state d) ''success''"
  by (simp add: build_if_def)

lemma build_if_other: "github_event c = Other_event n \<Longrightarrow> \<not> build_if c"
  by (simp add: build_if_def)

lemma triggered_build:
  "triggered visual_regression_test c \<longleftrightarrow> event_name (github_event c) = ''deployment_status''"
  by (simp add: triggered_def visual_regression_test_def)

lemma run_steps_build:
  "run_steps ex c False (steps build) =
     (if ex ''Checkout'' \<noteq> 0
      then [(checkout_step, Failure), (install_step, Skipped), (percy_step, Skipped)]
      else if ex ''Install'' \<noteq> 0
      then [(checkout_step, Success), (install_step, Failure), (percy_step, Skipped)]
      else if ex ''Percy Test'' \<noteq> 0
      then [(checkout_step, Success), (install_step, Success), (percy_step, Failure)]
      else [(checkout_step, Success), (install_step, Success), (percy_step, Success)])"
  by (simp add: build_def step_enabled_def checkout_step_def install_step_def percy_step_def)

lemma job_if_build: "job_if build = Some build_if"
  by (simp add: build_def)

lemma jobs_visual_regression_test: "jobs visual_regression_test = [build]"
  by (simp add: visual_regression_test_def)

lemma run_job_build:
  "run_job ex c build =
     (if build_if c
      then (steps_conclusion (run_steps ex c False (steps build)),
            run_steps ex c False (steps build))
      else (Skipped, []))"
  by (simp add: run_job_def job_enabled_def job_if_build Let_def)

lemma run_workflow_build:
  "run_workflow ex c visual_regression_test =
     (if event_name (github_event c) = ''deployment_status''
      then Some [run_job ex c build]
      else None)"
  by (simp add: run_workflow_def triggered_build jobs_visual_regression_test)

lemma steps_run_build:
  "steps_run ex c visual_regression_test =
     (if build_if c then executed (run_steps ex c False (steps build)) else [])"
proof (cases "github_event c")
  case (Deployment_status d)
  then show ?thesis
    by (simp add: steps_run_def run_workflow_build run_job_build executed_def)
next
  case (Other_event n)
  then have "\<not> build_if c"
    by (rule build_if_other)
  then show ?thesis
    by (simp add: steps_run_def run_workflow_build run_job_build executed_def)
qed

lemma executed_build:
  "map step_name (executed (run_steps ex c False (steps build))) =
     (if ex ''Checkout'' \<noteq> 0 then [''Checkout'']
      else if ex ''Install'' \<noteq> 0 then [''Checkout'', ''Install'']
      else [''Checkout'', ''Install'', ''Percy Test''])"
  unfolding run_steps_build
  by (simp add: executed_def checkout_step_def install_step_def percy_step_def)

lemma step_conclusions_build:
  "build_if c \<Longrightarrow> event_name (github_event c) = ''deployment_status'' \<Longrightarrow>
   step_conclusions ex c visual_regression_test =
     (if ex ''Checkout'' \<noteq> 0 then [Failure, Skipped, Skipped]
      else if ex ''Install'' \<noteq> 0 then [Success, Failure, Skipped]
      else if ex ''Percy Test'' \<noteq> 0 then [Success, Success, Failure]
      else [Success, Success, Success])"
  by (simp add: step_conclusions_def run_workflow_build run_job_build run_steps_build)

lemma pipeline_build:
  "build_if c \<Longrightarrow> event_name (github_event c) = ''deployment_status'' \<Longrightarrow>
   pipeline ex c visual_regression_test =
     Some (if ex ''Checkout'' \<noteq> 0 \<or> ex ''Install'' \<noteq> 0 \<or> ex ''Percy Test'' \<noteq> 0
           then Failure else Success)"
  by (simp add: pipeline_def run_workflow_build run_job_build run_steps_build
      run_conclusion_def steps_conclusion_def)

lemma deployed_event:
  "github_event deployed =
     Deployment_status \<lparr>state = ''success'', target_url = ''https://webcloud.example''\<rparr>"
  by (simp add: deployed_def)

lemma deploy_failed_event:
  "github_event deploy_failed =
     Deployment_status \<lparr>state = ''failure'', target_url = ''https://webcloud.example''\<rparr>"
  by (simp add: deploy_failed_def)

lemma build_if_deployed: "build_if deployed"
  by (simp add: build_if_deployment [OF deployed_event] gh_eq_success state_name_success)

lemma not_build_if_deploy_failed: "\<not> build_if deploy_failed"
  by (simp add: build_if_deployment [OF deploy_failed_event] gh_eq_success state_name_failure)

subsection \<open>The gate on the deployment state\<close>

text \<open>
  C1. The build job runs (executes a step) only for a \<^verbatim>\<open>deployment_status\<close> event whose
  state is \<^verbatim>\<open>success\<close>, and for such an event it does run; for every event with another
  state, and for every other event, it executes nothing. The state of the event is a
  state name as deployment statuses carry it, in small letters.
\<close>

theorem build_runs_only_on_success:
  assumes "\<forall>d. github_event c = Deployment_status d \<longrightarrow> state_name (state d)"
  shows "steps_run ex c visual_regression_test \<noteq> [] \<longleftrightarrow>
         (\<exists>d. github_event c = Deployment_status d \<and> state d = ''success'')"
proof (cases "github_event c")
  case (Deployment_status d)
  with assms have "state_name (state d)"
    by simp
  then have "build_if c \<longleftrightarrow> state d = ''success''"
    by (simp add: build_if_deployment [OF Deployment_status] gh_eq_success)
  moreover have "executed (run_steps ex c False (steps build)) \<noteq> []"
    using executed_build [of ex c] by (auto split: if_splits)
  ultimately show ?thesis
    using Deployment_status by (simp add: steps_run_build)
next
  case (Other_event n)
  then have "\<not> build_if c"
    by (rule build_if_other)
  then show ?thesis
    using Other_event by (simp add: steps_run_build)
qed

theorem build_runs_only_on_success_witness:
  "steps_run all_pass deployed visual_regression_test \<noteq> [] \<and>
   steps_run all_pass deploy_failed visual_regression_test = []"
proof -
  have "\<forall>d. github_event deployed = Deployment_status d \<longrightarrow> state_name (state d)"
    by (simp add: deployed_event state_name_success)
  then have "steps_run all_pass deployed visual_regression_test \<noteq> []"
    using build_runs_only_on_success [of deployed all_pass] by (simp add: deployed_event)
  moreover have "\<forall>d. github_event deploy_failed = Deployment_status d \<longrightarrow> state_name (state d)"
    by (simp add: deploy_failed_event state_name_failure)
  then have "steps_run all_pass deploy_failed visual_regression_test = []"
    using build_runs_only_on_success [of deploy_failed all_pass]
    by (simp add: deploy_failed_event)
  ultimately show ?thesis
    by simp
qed

subsection \<open>The order of the steps\<close>

text \<open>
  C2. When the build job runs (the deployment state is \<^verbatim>\<open>success\<close>), it executes its
  steps in the order checkout, \<^verbatim>\<open>npm install\<close>, then \<^verbatim>\<open>node test/snapshots.js\<close> under
  the Percy action: the steps executed are the first one, two or three of this list,
  and all three when each exits with status 0.
\<close>

theorem build_steps_in_order:
  assumes "github_event c = Deployment_status d" and "state d = ''success''"
  shows "map (\<lambda>s. (step_name s, step_action s)) (steps_run ex c visual_regression_test) =
           take (if ex ''Checkout'' \<noteq> 0 then 1 else if ex ''Install'' \<noteq> 0 then 2 else 3)
             [(''Checkout'', Uses ''actions/checkout@v1.0.0'' []),
              (''Install'', Run ''npm install''),
              (''Percy Test'', Uses ''percy/exec-action@v0.3.0''
                 [(''command'', ''node test/snapshots.js''), (''verbose'', ''true'')])]"
proof -
  have "build_if c"
    using assms by (simp add: build_if_deployment gh_eq_success state_name_success)
  then show ?thesis
    by (simp add: steps_run_build run_steps_build executed_def
        checkout_step_def install_step_def percy_step_def)
qed

theorem build_steps_in_order_witness:
  "map (\<lambda>s. (step_name s, step_action s)) (steps_run all_pass deployed visual_regression_test) =
     [(''Checkout'', Uses ''actions/checkout@v1.0.0'' []),
      (''Install'', Run ''npm install''),
      (''Percy Test'', Uses ''percy/exec-action@v0.3.0''
         [(''command'', ''node test/snapshots.js''), (''verbose'', ''true'')])]"
  using build_steps_in_order [OF deployed_event, of all_pass]
  by (simp add: all_pass_def)

subsection \<open>The environment of the job\<close>

text \<open>
  C3. The environment the workflow declares for the build job has exactly two entries,
  both on the Percy step: \<^verbatim>\<open>PERCY_TOKEN\<close>, the repository secret of that name, and
  \<^verbatim>\<open>DEPLOY_URL\<close>, the \<^verbatim>\<open>target_url\<close> of the deployment-status event. The checkout and
  install steps declare none.
\<close>

theorem build_env_exactly_two:
  assumes "github_event c = Deployment_status d"
  shows "job_declared_env visual_regression_test build c =
           [(''PERCY_TOKEN'', gh_string (secrets c ''PERCY_TOKEN'')),
            (''DEPLOY_URL'', target_url d)] \<and>
         declared_env visual_regression_test build percy_step c =
           job_declared_env visual_regression_test build c \<and>
         declared_env visual_regression_test build checkout_step c = [] \<and>
         declared_env visual_regression_test build install_step c = []"
  using assms
  by (simp add: job_declared_env_def declared_env_def visual_regression_test_def build_def
      checkout_step_def install_step_def percy_step_def gh_string_def)

theorem build_env_exactly_two_witness:
  "job_declared_env visual_regression_test build deployed =
     [(''PERCY_TOKEN'', ''t0ken''), (''DEPLOY_URL'', ''https://webcloud.example'')]"
  using build_env_exactly_two [OF deployed_event]
  by (simp add: deployed_def gh_string_def)

subsection \<open>Failure of a step\<close>

text \<open>
  C9. The steps are sequential and stop at a failure: when the install step exits with a
  status other than 0, the Percy step is not executed in that run (it is skipped).
\<close>

theorem install_failure_skips_percy:
  assumes "ex ''Install'' \<noteq> 0"
  shows "''Percy Test'' \<notin> set (map step_name (steps_run ex c visual_regression_test))"
proof (cases "build_if c")
  case True
  have "map step_name (executed (run_steps ex c False (steps build))) = [''Checkout''] \<or>
        map step_name (executed (run_steps ex c False (steps build))) = [''Checkout'', ''Install'']"
    using assms by (simp add: executed_build)
  then have skipped:
    "''Percy Test'' \<notin> set (map step_name (executed (run_steps ex c False (steps build))))"
    by (elim disjE) (simp_all only: list.set, simp_all)
  have run: "steps_run ex c visual_regression_test = executed (run_steps ex c False (steps build))"
    using True by (simp add: steps_run_build)
  show ?thesis
    unfolding run by (rule skipped)
next
  case False
  then show ?thesis
    by (simp add: steps_run_build)
qed

theorem install_failure_skips_percy_witness:
  "install_fails ''Install'' \<noteq> 0 \<and>
   map step_name (steps_run install_fails deployed visual_regression_test) =
     [''Checkout'', ''Install''] \<and>
   ''Percy Test'' \<notin> set (map step_name (steps_run install_fails deployed visual_regression_test))"
proof -
  have h: "install_fails ''Install'' \<noteq> 0"
    by (simp add: install_fails_def)
  have "map step_name (steps_run install_fails deployed visual_regression_test) =
          [''Checkout'', ''Install'']"
    by (simp add: steps_run_build build_if_deployed executed_build install_fails_def)
  then show ?thesis
    using h install_failure_skips_percy [of install_fails deployed] by simp
qed

text \<open>
  C4, as amended. The job fails exactly when one of its three steps exits with a status
  other than 0, the checkout step included; the failed step ends the run as a failed
  pipeline run: each step has one conclusion, the steps after the failed one are
  skipped, and no step declares a condition or \<^verbatim>\<open>continue-on-error\<close>.
\<close>

theorem build_fails_when_a_step_fails:
  assumes "github_event c = Deployment_status d" and "state d = ''success''"
  shows "(pipeline ex c visual_regression_test = Some Failure \<longleftrightarrow>
            ex ''Checkout'' \<noteq> 0 \<or> ex ''Install'' \<noteq> 0 \<or> ex ''Percy Test'' \<noteq> 0) \<and>
         (pipeline ex c visual_regression_test = Some Success \<longleftrightarrow>
            ex ''Checkout'' = 0 \<and> ex ''Install'' = 0 \<and> ex ''Percy Test'' = 0) \<and>
         step_conclusions ex c visual_regression_test =
           (if ex ''Checkout'' \<noteq> 0 then [Failure, Skipped, Skipped]
            else if ex ''Install'' \<noteq> 0 then [Success, Failure, Skipped]
            else if ex ''Percy Test'' \<noteq> 0 then [Success, Success, Failure]
            else [Success, Success, Success]) \<and>
         map step_if (steps build) = [None, None, None] \<and>
         map continue_on_error (steps build) = [False, False, False]"
proof -
  have run: "build_if c"
    using assms by (simp add: build_if_deployment gh_eq_success state_name_success)
  have ev: "event_name (github_event c) = ''deployment_status''"
    using assms by simp
  have "map step_if (steps build) = [None, None, None]"
    by (simp add: build_def checkout_step_def install_step_def percy_step_def)
  moreover have "map continue_on_error (steps build) = [False, False, False]"
    by (simp add: build_def checkout_step_def install_step_def percy_step_def)
  moreover note step_conclusions_build [OF run ev, of ex]
  moreover have "pipeline ex c visual_regression_test = Some Failure \<longleftrightarrow>
      ex ''Checkout'' \<noteq> 0 \<or> ex ''Install'' \<noteq> 0 \<or> ex ''Percy Test'' \<noteq> 0"
    by (simp add: pipeline_build [OF run ev])
  moreover have "pipeline ex c visual_regression_test = Some Success \<longleftrightarrow>
      ex ''Checkout'' = 0 \<and> ex ''Install'' = 0 \<and> ex ''Percy Test'' = 0"
    by (simp add: pipeline_build [OF run ev])
  ultimately show ?thesis
    by (simp only: simp_thms)
qed

theorem build_fails_when_a_step_fails_witness:
  "pipeline checkout_fails deployed visual_regression_test = Some Failure \<and>
   step_conclusions checkout_fails deployed visual_regression_test = [Failure, Skipped, Skipped] \<and>
   pipeline all_pass deployed visual_regression_test = Some Success"
  using build_fails_when_a_step_fails [OF deployed_event, of checkout_fails]
    build_fails_when_a_step_fails [OF deployed_event, of all_pass]
  by (simp add: checkout_fails_def all_pass_def)

text \<open>
  C4, as stated, fails: when the checkout step exits with status 1 the run fails, while
  neither the install step nor the test step has exited with a status other than 0.
\<close>

theorem only_install_or_test_fails_counterexample:
  "pipeline checkout_fails deployed visual_regression_test = Some Failure \<and>
   checkout_fails ''Install'' = 0 \<and> checkout_fails ''Percy Test'' = 0 \<and>
   map step_name (steps_run checkout_fails deployed visual_regression_test) = [''Checkout'']"
  by (simp add: pipeline_build build_if_deployed deployed_event steps_run_build executed_build
      checkout_fails_def)

section \<open>Properties of the Card component\<close>

lemma Card_fields:
  "comp_rule Card =
     Style_object
       [(''padding'', ''32px 16px''), (''flexDirection'', ''column''), (''display'', ''flex''),
        (''background'', ''var(--color-bg-alt)''), (''boxShadow'', ''var(--shadow)'')]"
  "comp_type Card = ''div''"
  "comp_passThroughProps Card = Names []"
  by (simp_all add: Card_def createComponent_def)

lemma combineRules_styles:
  "combineRules rs rp = fold (\<lambda>st acc. assignStyle acc st) (map (\<lambda>r. resolveRule r rp) rs) []"
  by (simp add: combineRules_def fold_map comp_def)

lemma el_css_Card:
  "el_css (render Card th p) =
     filter (\<lambda>(k, v). \<not> isUndefinedValue v)
       (fold (\<lambda>st acc. assignStyle acc st) (extension_styles th p)
          [(''padding'', ''32px 16px''), (''flexDirection'', ''column''), (''display'', ''flex''),
           (''background'', ''var(--color-bg-alt)''), (''boxShadow'', ''var(--shadow)'')])"
  by (simp add: render_def renderRule_def combineRules_styles extension_styles_def
      Card_fields(1) resolveRule_def assignStyle_def)

lemma Card_values_defined:
  "filter (\<lambda>(k, v). \<not> isUndefinedValue v)
     [(''padding'', ''32px 16px''), (''flexDirection'', ''column''), (''display'', ''flex''),
      (''background'', ''var(--color-bg-alt)''), (''boxShadow'', ''var(--shadow)'')] =
     [(''padding'', ''32px 16px''), (''flexDirection'', ''column''), (''display'', ''flex''),
      (''background'', ''var(--color-bg-alt)''), (''boxShadow'', ''var(--shadow)'')]"
  by (simp add: isUndefinedValue_def)

lemma extension_styles_none:
  "felaRule p = None \<Longrightarrow> extend_prop p = None \<Longrightarrow> extension_styles th p = []"
  by (simp add: extension_styles_def extensions_def)

lemma el_css_Card_plain:
  assumes "felaRule p = None" and "extend_prop p = None"
  shows "el_css (render Card th p) =
     [(''padding'', ''32px 16px''), (''flexDirection'', ''column''), (''display'', ''flex''),
      (''background'', ''var(--color-bg-alt)''), (''boxShadow'', ''var(--shadow)'')]"
  unfolding el_css_Card extension_styles_none [OF assms] fold_simps
  by (rule Card_values_defined)

lemma el_css_Card_cong:
  assumes "extension_styles th p = extension_styles th' q"
  shows "el_css (render Card th p) = el_css (render Card th' q)"
  unfolding el_css_Card assms ..

lemma passed_through_none:
  "passThrough p = Names [] \<Longrightarrow> passed_through Card p = []"
  by (simp add: passed_through_def Card_fields(3) resolvePassThrough_def
      extractPassThroughProps_def)

lemma card_hello_fields:
  "children card_hello = [''hello'']" "felaRule card_hello = None"
  "extend_prop card_hello = None" "innerRef card_hello = None" "id_prop card_hello = None"
  "style_prop card_hello = None" "as_prop card_hello = None" "className card_hello = None"
  "passThrough card_hello = Names []" "otherProps card_hello = []"
  by (simp_all add: card_hello_def only_children_def)

text \<open>
  An \<^verbatim>\<open>extend\<close> function reads the other props: with
  \<^verbatim>\<open>extend={p => ({color: p.color})}\<close> the prop \<^verbatim>\<open>color\<close> decides a declaration.
\<close>

lemma extend_function_reads_props:
  "el_css (render Card [] (card_colored v)) =
     filter (\<lambda>(k, v). \<not> isUndefinedValue v)
       [(''padding'', ''32px 16px''), (''flexDirection'', ''column''), (''display'', ''flex''),
        (''background'', ''var(--color-bg-alt)''), (''boxShadow'', ''var(--shadow)''),
        (''color'', v)]"
  by (simp add: el_css_Card extension_styles_def extensions_def card_colored_def
      card_hello_fields color_of_props_def resolveRule_def ruleProps_def assignStyle_def)

text \<open>
  C5. The Card component declares a fixed set of style properties: padding, a flex
  column layout (\<^verbatim>\<open>display: flex\<close>, \<^verbatim>\<open>flexDirection: column\<close>), and background and
  box shadow from the CSS variables \<^verbatim>\<open>--color-bg-alt\<close> and \<^verbatim>\<open>--shadow\<close>; its element
  type is \<^verbatim>\<open>div\<close>, and \<^verbatim>\<open><Card>children</Card>\<close> renders a div with exactly these
  declarations around the children.
\<close>

theorem Card_declares_styles_and_div:
  "comp_rule Card =
     Style_object
       [(''padding'', ''32px 16px''), (''flexDirection'', ''column''), (''display'', ''flex''),
        (''background'', ''var(--color-bg-alt)''), (''boxShadow'', ''var(--shadow)'')] \<and>
   comp_type Card = ''div'' \<and>
   render Card th (only_children ch) =
     \<lparr>el_type = ''div'', el_className = [],
      el_css =
        [(''padding'', ''32px 16px''), (''flexDirection'', ''column''), (''display'', ''flex''),
         (''background'', ''var(--color-bg-alt)''), (''boxShadow'', ''var(--shadow)'')],
      el_style = None, el_id = None, el_ref = None, el_attrs = [], el_children = ch\<rparr>"
proof -
  have css: "el_css (render Card th (only_children ch)) =
        [(''padding'', ''32px 16px''), (''flexDirection'', ''column''), (''display'', ''flex''),
         (''background'', ''var(--color-bg-alt)''), (''boxShadow'', ''var(--shadow)'')]"
    by (rule el_css_Card_plain) (simp_all add: only_children_def)
  have attrs: "passed_through Card (only_children ch) = []"
    by (rule passed_through_none) (simp add: only_children_def)
  have "render Card th (only_children ch) =
     \<lparr>el_type = ''div'', el_className = [],
      el_css = el_css (render Card th (only_children ch)),
      el_style = None, el_id = None, el_ref = None, el_attrs = [], el_children = ch\<rparr>"
    unfolding render_def attrs by (simp add: only_children_def Card_fields(2))
  then show ?thesis
    unfolding css by (simp add: Card_fields)
qed

theorem Card_declares_styles_and_div_witness:
  "el_type (render Card [] card_hello) = ''div'' \<and>
   map fst (el_css (render Card [] card_hello)) =
     [''padding'', ''flexDirection'', ''display'', ''background'', ''boxShadow''] \<and>
   el_children (render Card [] card_hello) = [''hello'']"
  using Card_declares_styles_and_div [of "[]" "[''hello'']"]
  by (simp add: card_hello_def)

text \<open>
  C6, as amended. The Card component names no prop of its own to pass through to the
  element, and it keeps no state: what it renders is decided by its children, by the
  props that react-fela handles for every component it creates (\<^verbatim>\<open>as\<close>, \<^verbatim>\<open>className\<close>,
  \<^verbatim>\<open>style\<close>, \<^verbatim>\<open>id\<close>, \<^verbatim>\<open>innerRef\<close>), by the styles that its extensions resolve to (the
  \<^verbatim>\<open>extend\<close> prop and the \<^verbatim>\<open>_felaRule\<close> of an enclosing component, each a style object or
  a function of the other props and the theme), and by the props that the
  \<^verbatim>\<open>passThrough\<close> prop names: two renders that agree on these produce the same element,
  whatever the other props and the theme are.
\<close>

theorem Card_render_depends_on_children_and_fela_props:
  assumes "children p = children q"
    and "as_prop p = as_prop q"
    and "className p = className q"
    and "style_prop p = style_prop q"
    and "id_prop p = id_prop q"
    and "innerRef p = innerRef q"
    and "extension_styles th p = extension_styles th' q"
    and "passed_through Card p = passed_through Card q"
  shows "comp_passThroughProps Card = Names [] \<and> render Card th p = render Card th' q"
proof -
  have "el_css (render Card th p) = el_css (render Card th' q)"
    using assms(7) by (rule el_css_Card_cong)
  then have "renderRule (comp_rule Card # extensions p) (ruleProps th p) =
      renderRule (comp_rule Card # extensions q) (ruleProps th' q)"
    by (simp add: render_def)
  then have "render Card th p = render Card th' q"
    using assms(1-6,8) by (simp add: render_def)
  then show ?thesis
    by (simp add: Card_fields(3))
qed

theorem Card_render_depends_on_children_and_fela_props_witness:
  "otherProps card_hello \<noteq> otherProps card_titled \<and>
   render Card [] card_hello = render Card [] card_titled"
proof -
  have "comp_passThroughProps Card = Names [] \<and>
      render Card [] card_hello = render Card [] card_titled"
    by (rule Card_render_depends_on_children_and_fela_props)
       (simp_all add: card_titled_def card_hello_fields extension_styles_none passed_through_none)
  then show ?thesis
    by (simp add: card_titled_def card_hello_fields)
qed

text \<open>
  C6, as stated, fails: two renders with the same children differ when one of them
  has a \<^verbatim>\<open>className\<close> prop.
\<close>

theorem Card_render_not_only_children_counterexample:
  "children card_hello = children card_wide \<and>
   render Card [] card_hello \<noteq> render Card [] card_wide"
proof -
  have "el_className (render Card [] card_hello) = []"
    by (simp add: render_def card_hello_fields)
  moreover have "el_className (render Card [] card_wide) = ''wide ''"
    by (simp add: render_def card_wide_def)
  ultimately have "render Card [] card_hello \<noteq> render Card [] card_wide"
    by auto
  then show ?thesis
    by (simp add: card_wide_def)
qed

text \<open>
  C10, as amended. The rule of the Card component does not read the props: it resolves
  to the same five declarations for every prop set and theme. A render with no
  extension (neither the \<^verbatim>\<open>extend\<close> prop nor a \<^verbatim>\<open>_felaRule\<close> from an enclosing component)
  declares exactly these five, and two renders whose extensions resolve to the same
  styles declare the same styles: a prop value changes the declared styles only
  through an extension.
\<close>

theorem Card_styles_fixed_up_to_extensions:
  "resolveRule (comp_rule Card) rp =
     [(''padding'', ''32px 16px''), (''flexDirection'', ''column''), (''display'', ''flex''),
      (''background'', ''var(--color-bg-alt)''), (''boxShadow'', ''var(--shadow)'')] \<and>
   (felaRule p = None \<and> extend_prop p = None \<longrightarrow>
      el_css (render Card th p) =
        [(''padding'', ''32px 16px''), (''flexDirection'', ''column''), (''display'', ''flex''),
         (''background'', ''var(--color-bg-alt)''), (''boxShadow'', ''var(--shadow)'')]) \<and>
   (extension_styles th p = extension_styles th' q \<longrightarrow>
      el_css (render Card th p) = el_css (render Card th' q))"
proof -
  have "resolveRule (comp_rule Card) rp =
     [(''padding'', ''32px 16px''), (''flexDirection'', ''column''), (''display'', ''flex''),
      (''background'', ''var(--color-bg-alt)''), (''boxShadow'', ''var(--shadow)'')]"
    by (simp add: Card_fields resolveRule_def)
  moreover have "el_css (render Card th p) =
        [(''padding'', ''32px 16px''), (''flexDirection'', ''column''), (''display'', ''flex''),
         (''background'', ''var(--color-bg-alt)''), (''boxShadow'', ''var(--shadow)'')]"
    if "felaRule p = None \<and> extend_prop p = None"
    using that by (simp add: el_css_Card_plain)
  moreover have "el_css (render Card th p) = el_css (render Card th' q)"
    if "extension_styles th p = extension_styles th' q"
    using that by (rule el_css_Card_cong)
  ultimately show ?thesis
    by blast
qed

theorem Card_styles_fixed_up_to_extensions_witness:
  "felaRule card_wide = None \<and> extend_prop card_wide = None \<and>
   extension_styles [] card_wide = extension_styles [] card_titled \<and>
   el_css (render Card [] card_wide) = el_css (render Card [] card_titled) \<and>
   map fst (el_css (render Card [] card_wide)) =
     [''padding'', ''flexDirection'', ''display'', ''background'', ''boxShadow'']"
proof -
  have h: "felaRule card_wide = None \<and> extend_prop card_wide = None"
    by (simp add: card_wide_def card_hello_fields)
  have e: "extension_styles [] card_wide = extension_styles [] card_titled"
    by (simp add: card_wide_def card_titled_def card_hello_fields extension_styles_none)
  have five: "el_css (render Card [] card_wide) =
        [(''padding'', ''32px 16px''), (''flexDirection'', ''column''), (''display'', ''flex''),
         (''background'', ''var(--color-bg-alt)''), (''boxShadow'', ''var(--shadow)'')]"
    using h Card_styles_fixed_up_to_extensions [of "ruleProps [] card_wide" card_wide "[]" "[]" card_titled]
    by blast
  have same: "el_css (render Card [] card_wide) = el_css (render Card [] card_titled)"
    using e Card_styles_fixed_up_to_extensions [of "ruleProps [] card_wide" card_wide "[]" "[]" card_titled]
    by blast
  have "map fst (el_css (render Card [] card_wide)) =
     [''padding'', ''flexDirection'', ''display'', ''background'', ''boxShadow'']"
    unfolding five by simp
  then show ?thesis
    using h e same by blast
qed

text \<open>
  C10, as stated, fails: a render with the prop
  \<^verbatim>\<open>extend={{padding: "0", color: "red"}}\<close> declares another padding and a sixth
  property.
\<close>

theorem Card_styles_change_with_extend_counterexample:
  "el_css (render Card [] card_flat) =
     [(''padding'', ''0''), (''flexDirection'', ''column''), (''display'', ''flex''),
      (''background'', ''var(--color-bg-alt)''), (''boxShadow'', ''var(--shadow)''),
      (''color'', ''red'')] \<and>
   el_css (render Card [] card_flat) \<noteq> el_css (render Card [] card_hello)"
proof -
  have "el_css (render Card [] card_flat) =
     [(''padding'', ''0''), (''flexDirection'', ''column''), (''display'', ''flex''),
      (''background'', ''var(--color-bg-alt)''), (''boxShadow'', ''var(--shadow)''),
      (''color'', ''red'')]"
    by (simp add: el_css_Card extension_styles_def extensions_def card_flat_def
        card_hello_fields resolveRule_def assignStyle_def isUndefinedValue_def)
  moreover have "el_css (render Card [] card_hello) =
     [(''padding'', ''32px 16px''), (''flexDirection'', ''column''), (''display'', ''flex''),
      (''background'', ''var(--color-bg-alt)''), (''boxShadow'', ''var(--shadow)'')]"
    by (simp add: el_css_Card_plain card_hello_fields)
  ultimately show ?thesis
    by simp
qed

section \<open>Properties of the article's snippets\<close>





















end
